theory Spec2Isabelle
  imports Main "HOL-Library.List_Lexorder" "HOL-Library.Char_ord"
begin

section \<open>The glTF to BAM command-line tool: paths, texture relocation, artifacts\<close>

text \<open>
  This theory embeds the function \<open>main\<close> of \<^verbatim>\<open>gltf/cli.py\<close>: the computation of the
  source, destination, assets and output paths (lines 115-130), the loop that rewrites the
  filename of every texture and copies the texture file (lines 145-171), and the writing of
  the animation artifacts and of the main artifact (lines 173-182).

  The file system, the store of texture objects and the log of file-system effects are
  explicit state. Exceptions are values of type \<open>error\<close>. Calls of the Python standard
  library are modelled as they behave on a POSIX host. The output on the console (the
  \<^verbatim>\<open>print\<close> calls and \<^verbatim>\<open>--print-scene\<close>) and the settings handed to the converter have no
  effect on paths, textures or artifacts and are left out.
\<close>

subsection \<open>Python strings\<close>

text \<open>The part of \<open>s\<close> after the last occurrence of \<open>c\<close> (all of \<open>s\<close> if there is none).\<close>

definition after_last :: "char \<Rightarrow> string \<Rightarrow> string" where
  "after_last c s = rev (takeWhile (\<lambda>x. x \<noteq> c) (rev s))"

text \<open>The part of \<open>s\<close> before the last occurrence of \<open>c\<close> (empty if there is none).\<close>

definition before_last :: "char \<Rightarrow> string \<Rightarrow> string" where
  "before_last c s = rev (tl (dropWhile (\<lambda>x. x \<noteq> c) (rev s)))"

text \<open>
  \<^verbatim>\<open>s.rsplit('.', 1)[0]\<close>: the list \<^verbatim>\<open>s.rsplit('.', 1)\<close> is \<^verbatim>\<open>[s]\<close> when \<open>s\<close> has no dot, and
  otherwise the part before the last dot followed by the part after it.
\<close>

definition rsplit_dot_head :: "string \<Rightarrow> string" where
  "rsplit_dot_head s = (if CHR ''.'' \<in> set s then before_last CHR ''.'' s else s)"

text \<open>Line 119: \<^verbatim>\<open>args.src.rsplit('.', 1)[0] + '.bam'\<close>.\<close>

definition default_dst :: "string \<Rightarrow> string" where
  "default_dst s = rsplit_dot_head s @ ''.bam''"

text \<open>\<^verbatim>\<open>s.rstrip('/')\<close>.\<close>

definition rstrip_slash :: "string \<Rightarrow> string" where
  "rstrip_slash s = rev (dropWhile (\<lambda>x. x = CHR ''/'') (rev s))"

subsection \<open>\<^verbatim>\<open>os.path\<close> on a POSIX host\<close>

text \<open>
  \<^verbatim>\<open>os.path.join(a, b)\<close>: an absolute \<open>b\<close> replaces \<open>a\<close>; otherwise \<open>b\<close> is appended, after a
  slash unless \<open>a\<close> is empty or ends with one.
\<close>

definition os_path_join :: "string \<Rightarrow> string \<Rightarrow> string" where
  "os_path_join a b =
     (if b \<noteq> [] \<and> hd b = CHR ''/'' then b
      else if a = [] \<or> last a = CHR ''/'' then a @ b
      else a @ ''/'' @ b)"

text \<open>
  \<^verbatim>\<open>os.path.dirname(p)\<close>: the path up to and including the last slash, with the trailing
  slashes removed unless it consists of slashes only.
\<close>

definition os_path_dirname :: "string \<Rightarrow> string" where
  "os_path_dirname p =
     (let head = rev (dropWhile (\<lambda>x. x \<noteq> CHR ''/'') (rev p))
      in if head \<noteq> [] \<and> head \<noteq> replicate (length head) CHR ''/'' then rstrip_slash head else head)"

subsection \<open>\<^verbatim>\<open>panda3d.core.Filename\<close>\<close>

text \<open>
  A \<^verbatim>\<open>Filename\<close> is its string in the Unix convention. On a POSIX host the conversions from
  and to the convention of the operating system leave the string as it is.
\<close>

definition from_os_specific :: "string \<Rightarrow> string" where
  "from_os_specific p = p"

definition to_os_specific :: "string \<Rightarrow> string" where
  "to_os_specific p = p"

text \<open>The basename is what follows the rightmost slash.\<close>

definition get_basename :: "string \<Rightarrow> string" where
  "get_basename p = after_last CHR ''/'' p"

text \<open>
  The directory part is everything up to, and not including, the rightmost slash (a run of
  slashes there counts as one); for a file of the root directory it is the root.
\<close>

definition get_dirname :: "string \<Rightarrow> string" where
  "get_dirname p =
     (if CHR ''/'' \<in> set p
      then (let d = rstrip_slash (before_last CHR ''/'' p) in if d = [] then ''/'' else d)
      else [])"

text \<open>The extension is what follows the rightmost dot of the basename, if it has one.\<close>

definition get_extension :: "string \<Rightarrow> string" where
  "get_extension p =
     (let b = get_basename p in if CHR ''.'' \<in> set b then after_last CHR ''.'' b else [])"

definition get_fullpath_wo_extension :: "string \<Rightarrow> string" where
  "get_fullpath_wo_extension p =
     (if CHR ''.'' \<in> set (get_basename p) then before_last CHR ''.'' p else p)"

subsection \<open>Errors, textures, the file system\<close>

datatype error =
    FileNotFoundError string
  | CrossVolumeError string string

type_synonym tex_id = nat

text \<open>
  A texture object. The scene nodes hold references (\<open>tex_id\<close>) to texture objects, and
  the objects live in a store, so that an assignment to \<^verbatim>\<open>texture.filename\<close> changes the one
  object that every referencing node sees.
\<close>

record texture =
  filename :: string
  fullpath :: string

datatype content =
    Bytes "nat list"
  | BamScene
  | BamBundle string

datatype event =
    MakeDirs string
  | CopyFile string string
  | WriteBam string

record world =
  files :: "string \<rightharpoonup> content"
  dirs :: "string set"
  texs :: "tex_id \<Rightarrow> texture"
  trace :: "event list"

text \<open>The proper prefixes of a path that end before a slash: its ancestor directories.\<close>

fun dir_prefixes :: "string \<Rightarrow> string \<Rightarrow> string list" where
  "dir_prefixes acc [] = []"
| "dir_prefixes acc (c # cs) =
     (if c = CHR ''/'' \<and> acc \<noteq> [] then [acc] else []) @ dir_prefixes (acc @ [c]) cs"

text \<open>\<^verbatim>\<open>os.makedirs(d, exist_ok=True)\<close>: the directory and its missing ancestors are created.\<close>

definition os_makedirs :: "string \<Rightarrow> world \<Rightarrow> world" where
  "os_makedirs d w =
     w\<lparr>dirs := dirs w \<union> set (d # dir_prefixes [] d), trace := trace w @ [MakeDirs d]\<rparr>"

text \<open>
  \<^verbatim>\<open>shutil.copy(src, dst)\<close>: raises \<^verbatim>\<open>FileNotFoundError\<close>, which carries the path of the source,
  when the source is no file; otherwise the destination gets the bytes of the source.
\<close>

definition shutil_copy :: "string \<Rightarrow> string \<Rightarrow> world \<Rightarrow> error option \<times> world" where
  "shutil_copy s d w =
     (case files w s of
        None \<Rightarrow> (Some (FileNotFoundError s), w)
      | Some b \<Rightarrow> (None, w\<lparr>files := (files w)(d \<mapsto> b), trace := trace w @ [CopyFile s d]\<rparr>))"

text \<open>\<^verbatim>\<open>write_bam_file(p)\<close> of a scene-graph node: the serialised node is written at \<open>p\<close>.\<close>

definition write_bam_file :: "string \<Rightarrow> content \<Rightarrow> world \<Rightarrow> world" where
  "write_bam_file p c w = w\<lparr>files := (files w)(p \<mapsto> c), trace := trace w @ [WriteBam p]\<rparr>"

text \<open>What a trace says: the artifacts written, and the copies made, in order.\<close>

fun bam_writes :: "event list \<Rightarrow> string list" where
  "bam_writes [] = []"
| "bam_writes (WriteBam p # es) = p # bam_writes es"
| "bam_writes (e # es) = bam_writes es"

fun copies :: "event list \<Rightarrow> (string \<times> string) list" where
  "copies [] = []"
| "copies (CopyFile s d # es) = (s, d) # copies es"
| "copies (e # es) = copies es"

subsection \<open>The environment of a run\<close>

text \<open>
  Two methods of \<^verbatim>\<open>Filename\<close> are parameters of the model: \<^verbatim>\<open>make_absolute\<close>, which depends
  on the current directory of the process, and \<^verbatim>\<open>makeRelativeTo\<close>, whose result is the
  filename expressed relative to the directory given (or an exception).
\<close>

record env =
  make_absolute :: "string \<Rightarrow> string"
  make_relative_to :: "string \<Rightarrow> string \<Rightarrow> error + string"

subsection \<open>Arguments and the converted scenes\<close>

datatype textures_mode = Ref | Copy

datatype animations_mode = Embed | Separate | Skip

text \<open>
  The parsed command line. \<open>arg_dst\<close> is the empty string when no destination is given (the
  default of the parser), \<open>arg_assets_dir\<close> is \<open>None\<close> when the option is absent. The parser
  admits no other value of \<^verbatim>\<open>--textures\<close> and \<^verbatim>\<open>--animations\<close> than the choices listed.
\<close>

record args =
  arg_src :: string
  arg_dst :: string
  arg_textures :: textures_mode
  arg_animations :: animations_mode
  arg_assets_dir :: "string option"

text \<open>
  A scene is its nodes in the order of the scene graph. A node refers to the textures applied
  to it, and a node of type \<^verbatim>\<open>AnimBundleNode\<close> has a bundle with a name.
\<close>

record node =
  node_textures :: "tex_id list"
  node_bundle :: "string option"

type_synonym scene = "node list"

record converter =
  scenes :: "scene list"
  active_scene :: scene

text \<open>\<^verbatim>\<open>scene.find_all_textures()\<close>: every texture applied in the scene, once.\<close>

definition find_all_textures :: "scene \<Rightarrow> tex_id list" where
  "find_all_textures sc = remdups (concat (map node_textures sc))"

text \<open>
  \<^verbatim>\<open>find_all_matches('**/+AnimBundleNode')\<close> followed by \<^verbatim>\<open>.node().bundle.name\<close>: the names of the
  bundles of the animation nodes, in the order of the scene graph.
\<close>

definition find_anim_bundles :: "scene \<Rightarrow> string list" where
  "find_anim_bundles sc = List.map_filter node_bundle sc"

text \<open>The filenames a node shows for its textures.\<close>

definition node_filenames :: "world \<Rightarrow> node \<Rightarrow> string list" where
  "node_filenames w n = map (\<lambda>t. filename (texs w t)) (node_textures n)"

subsection \<open>The paths of the job (lines 115 to 130)\<close>

record job =
  job_src :: string
  job_dst :: string
  indir :: string
  outdir :: string
  assets_dir :: string

definition resolve_paths :: "env \<Rightarrow> args \<Rightarrow> job" where
  "resolve_paths E a =
     (let src = make_absolute E (from_os_specific (arg_src a));
          dst_arg = (if arg_dst a = [] then default_dst (arg_src a) else arg_dst a);
          dst = make_absolute E (from_os_specific dst_arg);
          ind = get_dirname src;
          outd = get_dirname dst;
          assets = make_absolute E
            (case arg_assets_dir a of
               None \<Rightarrow> ind
             | Some d \<Rightarrow> if d = [] then ind else from_os_specific d)
      in \<lparr>job_src = src, job_dst = dst, indir = ind, outdir = outd, assets_dir = assets\<rparr>)"

subsection \<open>The relocation of the textures (lines 145 to 171)\<close>

text \<open>Lines 145 to 150: the textures of all scenes that have a filename.\<close>

definition textures_of :: "converter \<Rightarrow> world \<Rightarrow> tex_id list" where
  "textures_of conv w =
     filter (\<lambda>t. filename (texs w t) \<noteq> []) (concat (map find_all_textures (scenes conv)))"

text \<open>
  The body of the loop, lines 153 to 171. The two paths are computed from the filename as it
  is when the body starts; then the filename is rewritten; then the file is copied if the
  two paths differ.
\<close>

definition relocate_texture ::
  "env \<Rightarrow> textures_mode \<Rightarrow> string \<Rightarrow> string \<Rightarrow> tex_id \<Rightarrow> world \<Rightarrow> error option \<times> world" where
  "relocate_texture E mode assets outd t w =
     (let fname = filename (texs w t);
          texsrc = os_path_join (to_os_specific assets) fname;
          texdst = os_path_join (to_os_specific outd) fname
      in if mode = Copy \<or> mode = Ref then
           (case make_relative_to E fname assets of
              Inl e \<Rightarrow> (Some e, w)
            | Inr relpath \<Rightarrow>
                (let w1 = w\<lparr>texs := (texs w)(t := (texs w t)\<lparr>filename := relpath\<rparr>)\<rparr>
                 in if texsrc \<noteq> texdst
                    then shutil_copy texsrc texdst (os_makedirs (os_path_dirname texdst) w1)
                    else (None, w1)))
         else (None, w))"

fun relocate_all ::
  "env \<Rightarrow> textures_mode \<Rightarrow> string \<Rightarrow> string \<Rightarrow> tex_id list \<Rightarrow> world \<Rightarrow> error option \<times> world" where
  "relocate_all E mode assets outd [] w = (None, w)"
| "relocate_all E mode assets outd (t # ts) w =
     (case relocate_texture E mode assets outd t w of
        (Some e, w') \<Rightarrow> (Some e, w')
      | (None, w') \<Rightarrow> relocate_all E mode assets outd ts w')"

subsection \<open>The artifacts (lines 173 to 182)\<close>

definition anim_dst :: "string \<Rightarrow> string \<Rightarrow> string" where
  "anim_dst dst anim_name =
     get_fullpath_wo_extension dst @ ''_'' @ anim_name @ ''.'' @ get_extension dst"

fun write_animations :: "string \<Rightarrow> string list \<Rightarrow> world \<Rightarrow> world" where
  "write_animations dst [] w = w"
| "write_animations dst (anim_name # rest) w =
     write_animations dst rest (write_bam_file (anim_dst dst anim_name) (BamBundle anim_name) w)"

subsection \<open>The whole of \<open>main\<close>\<close>

text \<open>
  The converter has built the scenes from the source file before line 136; they are the
  argument \<open>conv\<close>. An exception leaves the function at once: nothing after the failing
  statement is executed.
\<close>

definition main :: "env \<Rightarrow> args \<Rightarrow> converter \<Rightarrow> world \<Rightarrow> error option \<times> world" where
  "main E a conv w =
     (let j = resolve_paths E a;
          w1 = os_makedirs (outdir j) w;
          textures = textures_of conv w1
      in case relocate_all E (arg_textures a) (assets_dir j) (outdir j) textures w1 of
           (Some e, w2) \<Rightarrow> (Some e, w2)
         | (None, w2) \<Rightarrow>
             (let w3 = (if arg_animations a = Separate
                        then write_animations (job_dst j) (find_anim_bundles (active_scene conv)) w2
                        else w2)
              in (None, write_bam_file (job_dst j) BamScene w3)))"

subsection \<open>The path resolver of the specification\<close>

text \<open>
  Modelled from the spec: \<open>relativeTo(path, base)\<close> of the PathResolver, which "computes a
  path expressed relative to \<open>base\<close>" and "fails with \<open>CrossVolumeError\<close> if \<open>path\<close> and \<open>base\<close>
  have no common root (e.g., different filesystem drives)". In the source this step is the
  call of \<^verbatim>\<open>Filename.makeRelativeTo\<close>, a method of the panda3d library whose code is not part
  of the repository. The root of a path is its drive, the text before a colon; paths that
  start with a slash are all on the one root without a name. A filename that is not absolute
  is already relative to the base and stays as it is.
\<close>

definition volume :: "string \<Rightarrow> string" where
  "volume p = (if CHR '':'' \<in> set p then takeWhile (\<lambda>x. x \<noteq> CHR '':'') p else [])"

definition is_absolute :: "string \<Rightarrow> bool" where
  "is_absolute p = (CHR '':'' \<in> set p \<or> (p \<noteq> [] \<and> hd p = CHR ''/''))"

definition no_common_root :: "string \<Rightarrow> string \<Rightarrow> bool" where
  "no_common_root p base = (is_absolute p \<and> volume p \<noteq> volume base)"

fun split_on :: "char \<Rightarrow> string \<Rightarrow> string list" where
  "split_on c [] = [[]]"
| "split_on c (x # xs) =
     (if x = c then [] # split_on c xs
      else (case split_on c xs of [] \<Rightarrow> [[x]] | y # ys \<Rightarrow> (x # y) # ys))"

definition components :: "string \<Rightarrow> string list" where
  "components p =
     filter (\<lambda>s. s \<noteq> [])
       (split_on CHR ''/'' (if CHR '':'' \<in> set p then tl (dropWhile (\<lambda>x. x \<noteq> CHR '':'') p) else p))"

fun strip_common :: "string list \<Rightarrow> string list \<Rightarrow> string list \<times> string list" where
  "strip_common (x # xs) (y # ys) = (if x = y then strip_common xs ys else (x # xs, y # ys))"
| "strip_common xs ys = (xs, ys)"

fun join_slash :: "string list \<Rightarrow> string" where
  "join_slash [] = []"
| "join_slash [x] = x"
| "join_slash (x # xs) = x @ ''/'' @ join_slash xs"

definition relativeTo :: "string \<Rightarrow> string \<Rightarrow> error + string" where
  "relativeTo p base =
     (if \<not> is_absolute p then Inr p
      else if no_common_root p base then Inl (CrossVolumeError p base)
      else (case strip_common (components p) (components base) of
              (ps, bs) \<Rightarrow> Inr (join_slash (replicate (length bs) ''..'' @ ps))))"

text \<open>
  Modelled from the spec: \<open>defaultDestination(sourcePath, targetExtension)\<close>, which "replaces
  the source's extension with \<open>targetExtension\<close>".
\<close>

definition defaultDestination :: "string \<Rightarrow> string \<Rightarrow> string" where
  "defaultDestination sourcePath targetExtension =
     get_fullpath_wo_extension sourcePath @ ''.'' @ targetExtension"

subsection \<open>A concrete environment\<close>

text \<open>
  The environment of the examples: the current directory is \<open>cwd\<close>; \<open>make_absolute\<close> is given
  for filenames in standard form (no doubled slash, no \<^verbatim>\<open>.\<close> or \<^verbatim>\<open>..\<close> component), which it
  only prefixes with the current directory when they are relative.
\<close>

definition posix_env :: "string \<Rightarrow> env" where
  "posix_env cwd =
     \<lparr>make_absolute = (\<lambda>p. if p \<noteq> [] \<and> hd p = CHR ''/'' then p else cwd @ ''/'' @ p),
      make_relative_to = relativeTo\<rparr>"

definition no_texture :: texture where
  "no_texture = \<lparr>filename = [], fullpath = []\<rparr>"

definition tex :: "string \<Rightarrow> texture" where
  "tex f = \<lparr>filename = f, fullpath = f\<rparr>"

text \<open>
  A command line, a scene and a state for the examples: two nodes with textures (texture 1 is
  shared by both), two animation nodes, and one texture file in the directory \<^verbatim>\<open>/work\<close>.
\<close>

definition example_args :: "string \<Rightarrow> animations_mode \<Rightarrow> args" where
  "example_args d anim =
     \<lparr>arg_src = ''model.gltf'', arg_dst = d, arg_textures = Ref, arg_animations = anim,
      arg_assets_dir = None\<rparr>"

definition example_scene :: scene where
  "example_scene =
     [\<lparr>node_textures = [0, 1], node_bundle = None\<rparr>,
      \<lparr>node_textures = [1], node_bundle = None\<rparr>,
      \<lparr>node_textures = [], node_bundle = Some ''walk''\<rparr>,
      \<lparr>node_textures = [], node_bundle = Some ''idle''\<rparr>]"

definition example_conv :: converter where
  "example_conv = \<lparr>scenes = [example_scene], active_scene = example_scene\<rparr>"

definition example_world :: "string \<Rightarrow> string \<Rightarrow> world" where
  "example_world f0 f1 =
     \<lparr>files = [''/work/a.png'' \<mapsto> Bytes [1, 2, 3]], dirs = {''/work''},
      texs = (\<lambda>t. no_texture)(0 := tex f0, 1 := tex f1), trace = []\<rparr>"

section \<open>Properties\<close>

subsection \<open>Strings and paths\<close>

lemma takeWhile_neq_all: "c \<notin> set b \<Longrightarrow> takeWhile (\<lambda>x. x \<noteq> c) b = b"
  by (induction b) auto

lemma dropWhile_neq_all: "c \<notin> set b \<Longrightarrow> dropWhile (\<lambda>x. x \<noteq> c) b = []"
  by (induction b) auto

lemma before_last_append:
  "c \<notin> set b \<Longrightarrow> before_last c (a @ c # b) = a"
  by (simp add: before_last_def dropWhile_append3 dropWhile_neq_all)

lemma after_last_append:
  "c \<notin> set b \<Longrightarrow> after_last c (a @ c # b) = b"
  by (simp add: after_last_def takeWhile_tail takeWhile_neq_all)

lemma set_after_last: "set (after_last c s) \<subseteq> set s"
  unfolding after_last_def using set_takeWhileD by fastforce

lemma default_dst_no_dot: "CHR ''.'' \<notin> set s \<Longrightarrow> default_dst s = s @ ''.bam''"
  by (simp add: default_dst_def rsplit_dot_head_def)

lemma default_dst_last_dot:
  "CHR ''.'' \<notin> set b \<Longrightarrow> default_dst (a @ CHR ''.'' # b) = a @ ''.bam''"
  by (simp add: default_dst_def rsplit_dot_head_def before_last_append)

text \<open>
  Where the code and the specification's \<open>defaultDestination\<close> agree: on a source whose
  basename has a dot, and on a source without any dot.
\<close>

lemma default_dst_agrees:
  "CHR ''.'' \<in> set (get_basename s) \<or> CHR ''.'' \<notin> set s \<Longrightarrow>
   default_dst s = defaultDestination s ''bam''"
  using set_after_last [of "CHR ''/''" s]
  by (auto simp: default_dst_def rsplit_dot_head_def defaultDestination_def
      get_fullpath_wo_extension_def get_basename_def)

text \<open>
  The directories of the job: the output directory is the directory of the destination, and
  without the option \<^verbatim>\<open>--assets-dir\<close> the assets directory is the directory of the source.
\<close>

lemma resolve_paths_defaults:
  "outdir (resolve_paths E a) = get_dirname (job_dst (resolve_paths E a))
   \<and> indir (resolve_paths E a) = get_dirname (job_src (resolve_paths E a))
   \<and> (arg_assets_dir a = None \<or> arg_assets_dir a = Some [] \<longrightarrow>
        assets_dir (resolve_paths E a) = make_absolute E (get_dirname (job_src (resolve_paths E a))))
   \<and> (arg_dst a = [] \<longrightarrow>
        job_dst (resolve_paths E a) = make_absolute E (default_dst (arg_src a)))"
  by (auto simp: resolve_paths_def Let_def from_os_specific_def)

subsection \<open>The default destination\<close>

text \<open>
  C10: the default destination is the source string cut at its last dot, wherever that dot
  is, followed by \<^verbatim>\<open>.bam\<close>. A source without a dot gets \<^verbatim>\<open>.bam\<close> appended; a source of the form
  \<open>d.b\<close> with no dot in \<open>b\<close> becomes \<open>d.bam\<close>, also when the dot is in a directory name:
  \<^verbatim>\<open>models.v1/scene\<close> becomes \<^verbatim>\<open>models.bam\<close> and not \<^verbatim>\<open>models.v1/scene.bam\<close>.
\<close>

theorem default_dst_splits_whole_path:
  "(CHR ''.'' \<notin> set s \<longrightarrow> default_dst s = s @ ''.bam'')
   \<and> (CHR ''.'' \<notin> set b \<longrightarrow> default_dst (d @ ''.'' @ b) = d @ ''.bam'')
   \<and> default_dst ''models.v1/scene'' = ''models.bam''
   \<and> default_dst ''models.v1/scene'' \<noteq> ''models.v1/scene.bam''"
proof -
  have "default_dst ''models.v1/scene'' = ''models.bam''"
    using default_dst_last_dot [of "''v1/scene''" "''models''"] by simp
  then show ?thesis
    by (simp add: default_dst_no_dot default_dst_last_dot)
qed

theorem default_dst_splits_whole_path_witness:
  "CHR ''.'' \<notin> set ''scene'' \<and> default_dst ''scene'' = ''scene.bam''
   \<and> CHR ''.'' \<notin> set ''gltf''
   \<and> default_dst (''a.b/model'' @ ''.'' @ ''gltf'') = ''a.b/model'' @ ''.bam''"
  using default_dst_splits_whole_path [of "''scene''" "''gltf''" "''a.b/model''"] by simp

text \<open>
  C9: without a destination argument the destination should be the source with its extension
  replaced by \<^verbatim>\<open>bam\<close>. For the source \<^verbatim>\<open>models.v1/scene\<close>, which has no extension, run in the
  directory \<^verbatim>\<open>/work\<close>, the code computes the destination \<^verbatim>\<open>/work/models.bam\<close>, while the source
  with its (empty) extension replaced is \<^verbatim>\<open>/work/models.v1/scene.bam\<close>.
\<close>

theorem default_destination_dotted_directory:
  "job_dst (resolve_paths (posix_env ''/work'')
      \<lparr>arg_src = ''models.v1/scene'', arg_dst = [], arg_textures = Ref,
       arg_animations = Embed, arg_assets_dir = None\<rparr>) = ''/work/models.bam''
   \<and> make_absolute (posix_env ''/work'') (defaultDestination ''models.v1/scene'' ''bam'')
       = ''/work/models.v1/scene.bam''"
  by (simp add: resolve_paths_def posix_env_def default_dst_def rsplit_dot_head_def
      before_last_def from_os_specific_def defaultDestination_def get_fullpath_wo_extension_def
      get_basename_def after_last_def Let_def)

subsection \<open>The two texture modes\<close>

lemma relocate_texture_mode:
  "relocate_texture E Ref assets outd t w = relocate_texture E Copy assets outd t w"
  by (simp add: relocate_texture_def)

lemma relocate_all_mode:
  "relocate_all E Ref assets outd ts w = relocate_all E Copy assets outd ts w"
  by (induction ts arbitrary: w)
    (simp_all add: relocate_texture_mode split: prod.splits option.splits)

text \<open>
  C6: the modes \<^verbatim>\<open>ref\<close> and \<^verbatim>\<open>copy\<close> do the same: for every environment, command line, scene
  collection and initial state, the run under \<^verbatim>\<open>ref\<close> and the run under \<^verbatim>\<open>copy\<close> return the same
  result and the same final state, that is the same rewritten filenames, the same files and
  the same trace of copies.
\<close>

theorem textures_modes_equal:
  "main E (a\<lparr>arg_textures := Ref\<rparr>) conv w = main E (a\<lparr>arg_textures := Copy\<rparr>) conv w"
proof -
  have "resolve_paths E (a\<lparr>arg_textures := Ref\<rparr>) = resolve_paths E (a\<lparr>arg_textures := Copy\<rparr>)"
    by (simp add: resolve_paths_def)
  then show ?thesis
    by (simp add: main_def relocate_all_mode Let_def split: prod.splits option.splits)
qed

subsection \<open>The loop body and the loop\<close>

text \<open>The equations that evaluate a concrete run.\<close>

lemmas path_defs = after_last_def before_last_def rsplit_dot_head_def default_dst_def
  rstrip_slash_def os_path_join_def os_path_dirname_def from_os_specific_def to_os_specific_def
  get_basename_def get_dirname_def get_extension_def get_fullpath_wo_extension_def anim_dst_def

lemmas rel_defs = relativeTo_def is_absolute_def no_common_root_def volume_def components_def

lemmas run_defs = main_def resolve_paths_def textures_of_def find_all_textures_def
  find_anim_bundles_def relocate_texture_def os_makedirs_def shutil_copy_def write_bam_file_def
  List.map_filter_def Let_def

lemmas example_defs = posix_env_def example_args_def example_scene_def example_conv_def
  example_world_def tex_def no_texture_def

lemma bam_writes_append: "bam_writes (xs @ ys) = bam_writes xs @ bam_writes ys"
  by (induction xs rule: bam_writes.induct) simp_all

lemma copies_append: "copies (xs @ ys) = copies xs @ copies ys"
  by (induction xs rule: copies.induct) simp_all

lemma os_makedirs_simps:
  "files (os_makedirs d w) = files w"
  "texs (os_makedirs d w) = texs w"
  "bam_writes (trace (os_makedirs d w)) = bam_writes (trace w)"
  "copies (trace (os_makedirs d w)) = copies (trace w)"
  "d \<in> dirs (os_makedirs d w)"
  by (simp_all add: os_makedirs_def bam_writes_append copies_append)

lemma textures_of_os_makedirs: "textures_of conv (os_makedirs d w) = textures_of conv w"
  by (simp add: textures_of_def os_makedirs_simps)

text \<open>What one pass of the loop body does, case by case.\<close>

lemma relocate_texture_cases:
  assumes "relocate_texture E mode assets outd t w = (res, w')"
    and "f = filename (texs w t)"
  shows "(\<exists>e. make_relative_to E f assets = Inl e \<and> res = Some e \<and> w' = w)
       \<or> (\<exists>r. make_relative_to E f assets = Inr r
             \<and> texs w' = (texs w)(t := (texs w t)\<lparr>filename := r\<rparr>)
             \<and> bam_writes (trace w') = bam_writes (trace w)
             \<and> (if os_path_join assets f = os_path_join outd f
                 then res = None \<and> files w' = files w \<and> dirs w' = dirs w \<and> trace w' = trace w
                 else os_path_dirname (os_path_join outd f) \<in> dirs w'
                   \<and> (case files w (os_path_join assets f) of
                         None \<Rightarrow> res = Some (FileNotFoundError (os_path_join assets f))
                           \<and> files w' = files w \<and> copies (trace w') = copies (trace w)
                       | Some b \<Rightarrow> res = None
                           \<and> files w' = (files w)(os_path_join outd f \<mapsto> b)
                           \<and> copies (trace w')
                               = copies (trace w) @ [(os_path_join assets f, os_path_join outd f)])))"
proof (cases "make_relative_to E f assets")
  case (Inl e)
  with assms show ?thesis
    by (cases mode) (auto simp: relocate_texture_def Let_def)
next
  case (Inr r)
  with assms show ?thesis
    by (cases mode)
      (auto simp: relocate_texture_def Let_def to_os_specific_def shutil_copy_def
        os_makedirs_def bam_writes_append copies_append split: option.splits if_splits)
qed


lemma relocate_texture_bam:
  assumes "relocate_texture E mode assets outd t w = (res, w')"
  shows "bam_writes (trace w') = bam_writes (trace w)"
  using relocate_texture_cases [OF assms refl] by auto


lemma relocate_all_append:
  "relocate_all E mode assets outd (xs @ ys) w =
     (case relocate_all E mode assets outd xs w of
        (Some e, w') \<Rightarrow> (Some e, w')
      | (None, w') \<Rightarrow> relocate_all E mode assets outd ys w')"
  by (induction xs arbitrary: w) (auto split: prod.splits option.splits)


lemma relocate_all_bam:
  "relocate_all E mode assets outd ts w = (res, w') \<Longrightarrow> bam_writes (trace w') = bam_writes (trace w)"
proof (induction ts arbitrary: w)
  case Nil
  then show ?case by simp
next
  case (Cons t ts)
  obtain r1 w1 where step: "relocate_texture E mode assets outd t w = (r1, w1)"
    by (cases "relocate_texture E mode assets outd t w")
  show ?case
  proof (cases r1)
    case None
    with Cons.prems step have "relocate_all E mode assets outd ts w1 = (res, w')" by simp
    from Cons.IH [OF this] relocate_texture_bam [OF step] show ?thesis by simp
  next
    case (Some e)
    with Cons.prems step have "w' = w1" by simp
    with relocate_texture_bam [OF step] show ?thesis by simp
  qed
qed



lemma write_animations_trace:
  "trace (write_animations dst ns w) = trace w @ map (\<lambda>n. WriteBam (anim_dst dst n)) ns"
  by (induction ns arbitrary: w) (simp_all add: write_bam_file_def)

lemma write_animations_texs: "texs (write_animations dst ns w) = texs w"
  by (induction ns arbitrary: w) (simp_all add: write_bam_file_def)

text \<open>
  The run as a whole, by the result of the loop: a failure of the loop is the result of the
  run, in the state of the failure; after a loop that succeeds the artifacts are written.
\<close>

lemma main_cases:
  assumes "j = resolve_paths E a" and "w1 = os_makedirs (outdir j) w"
    and "relocate_all E (arg_textures a) (assets_dir j) (outdir j) (textures_of conv w) w1 = (res, w2)"
  shows "(\<exists>e. res = Some e \<and> main E a conv w = (Some e, w2))
       \<or> (res = None \<and> (\<exists>w'. main E a conv w = (None, w') \<and> texs w' = texs w2
             \<and> bam_writes (trace w') = bam_writes (trace w)
                 @ (if arg_animations a = Separate
                    then map (anim_dst (job_dst j)) (find_anim_bundles (active_scene conv)) else [])
                 @ [job_dst j]))"
proof -
  have bw: "bam_writes (trace w2) = bam_writes (trace w)"
    using relocate_all_bam [OF assms(3)] assms(2) by (simp add: os_makedirs_simps)
  have "bam_writes (map (\<lambda>n. WriteBam (anim_dst (job_dst j) n)) ns) = map (anim_dst (job_dst j)) ns" for ns
    by (induction ns) simp_all
  with bw assms show ?thesis
    by (cases res)
      (auto simp: main_def Let_def textures_of_os_makedirs write_bam_file_def
        write_animations_trace write_animations_texs bam_writes_append)
qed

text \<open>With the output directory equal to the assets directory the loop copies nothing.\<close>

lemma relocate_all_same_dir:
  "relocate_all E mode d d ts w = (res, w') \<Longrightarrow>
   files w' = files w \<and> dirs w' = dirs w \<and> trace w' = trace w"
proof (induction ts arbitrary: w)
  case Nil
  then show ?case by simp
next
  case (Cons t ts)
  obtain r1 w1 where step: "relocate_texture E mode d d t w = (r1, w1)"
    by (cases "relocate_texture E mode d d t w")
  from relocate_texture_cases [OF step refl]
  have same: "files w1 = files w \<and> dirs w1 = dirs w \<and> trace w1 = trace w" by auto
  show ?case
  proof (cases r1)
    case None
    with Cons.prems step have "relocate_all E mode d d ts w1 = (res, w')" by simp
    from Cons.IH [OF this] same show ?thesis by simp
  next
    case (Some e)
    with Cons.prems step have "w' = w1" by simp
    with same show ?thesis by simp
  qed
qed

subsection \<open>One texture\<close>



text \<open>
  C4: the rewrite changes the one texture object in the store. When the body of the loop
  rewrites the filename of texture \<open>t\<close> to \<open>r\<close>, every node shows \<open>r\<close> at each of its
  references to \<open>t\<close> and the old filenames at its other references; so two nodes that both
  refer to \<open>t\<close> both show \<open>r\<close>.
\<close>

theorem aliasing_preserved:
  assumes "relocate_texture E mode assets outd t w = (res, w')"
    and "make_relative_to E (filename (texs w t)) assets = Inr r"
    and "t \<in> set (node_textures n1)" and "t \<in> set (node_textures n2)"
  shows "r \<in> set (node_filenames w' n1) \<and> r \<in> set (node_filenames w' n2)
    \<and> (\<forall>n. node_filenames w' n
          = map (\<lambda>u. if u = t then r else filename (texs w u)) (node_textures n))"
proof -
  from relocate_texture_cases [OF assms(1) refl] assms(2)
  have tx: "texs w' = (texs w)(t := (texs w t)\<lparr>filename := r\<rparr>)" by auto
  then have all: "node_filenames w' n
      = map (\<lambda>u. if u = t then r else filename (texs w u)) (node_textures n)" for n
    by (simp add: node_filenames_def)
  from assms(3,4) have "r \<in> set (node_filenames w' n1)" and "r \<in> set (node_filenames w' n2)"
    unfolding all by force+
  with all show ?thesis by blast
qed

theorem aliasing_preserved_witness:
  "node_filenames (snd (relocate_texture (posix_env ''/work'') Ref ''/work'' ''/work'' 1
        (example_world ''a.png'' ''/work/b.png''))) (example_scene ! 0) = [''a.png'', ''b.png'']
   \<and> node_filenames (snd (relocate_texture (posix_env ''/work'') Ref ''/work'' ''/work'' 1
        (example_world ''a.png'' ''/work/b.png''))) (example_scene ! 1) = [''b.png'']"
proof -
  let ?E = "posix_env ''/work''"
  let ?w = "example_world ''a.png'' ''/work/b.png''"
  have r: "make_relative_to ?E (filename (texs ?w 1)) ''/work'' = Inr ''b.png''"
    by (simp add: example_defs rel_defs)
  have n1: "1 \<in> set (node_textures (example_scene ! 0))"
    and n2: "1 \<in> set (node_textures (example_scene ! 1))"
    by (simp_all add: example_defs)
  from aliasing_preserved [OF prod.collapse [symmetric] r n1 n2, of Ref "''/work''"]
  show ?thesis
    by (simp add: example_defs)
qed




subsection \<open>The whole run\<close>






lemma anim_dst_inj: "anim_dst d n = anim_dst d n' \<Longrightarrow> n = n'"
  by (simp add: anim_dst_def)

text \<open>
  C5 (amended): in the mode \<^verbatim>\<open>separate\<close>, a run that succeeds writes one artifact for each
  animation bundle of the active scene, at the destination without its extension followed by
  an underscore, the name of the bundle, a dot and the extension of the destination; then it
  writes the main artifact. The bundles are written in the order in which the scene graph
  yields them, and bundles with different names get different paths.
\<close>

theorem animation_artifacts_in_scene_order:
  assumes "arg_animations a = Separate" and "main E a conv w = (None, w')"
  shows "bam_writes (trace w') = bam_writes (trace w)
            @ map (anim_dst (job_dst (resolve_paths E a))) (find_anim_bundles (active_scene conv))
            @ [job_dst (resolve_paths E a)]
    \<and> (\<forall>n n'. n \<noteq> n' \<longrightarrow>
          anim_dst (job_dst (resolve_paths E a)) n \<noteq> anim_dst (job_dst (resolve_paths E a)) n')"
proof -
  let ?j = "resolve_paths E a"
  obtain res w2 where run: "relocate_all E (arg_textures a) (assets_dir ?j) (outdir ?j)
      (textures_of conv w) (os_makedirs (outdir ?j) w) = (res, w2)"
    by (cases "relocate_all E (arg_textures a) (assets_dir ?j) (outdir ?j)
      (textures_of conv w) (os_makedirs (outdir ?j) w)")
  from main_cases [OF refl refl run] assms
  have "bam_writes (trace w') = bam_writes (trace w)
            @ map (anim_dst (job_dst ?j)) (find_anim_bundles (active_scene conv)) @ [job_dst ?j]"
    by auto
  moreover have "anim_dst (job_dst ?j) n \<noteq> anim_dst (job_dst ?j) n'" if "n \<noteq> n'" for n n'
    using that anim_dst_inj by blast
  ultimately show ?thesis by blast
qed

theorem animation_artifacts_in_scene_order_witness:
  "bam_writes (trace (snd (main (posix_env ''/work'') (example_args ''model.bam'' Separate)
        example_conv (example_world ''a.png'' []))))
     = [''/work/model_walk.bam'', ''/work/model_idle.bam'', ''/work/model.bam'']
   \<and> anim_dst ''/work/model.bam'' ''walk'' \<noteq> anim_dst ''/work/model.bam'' ''idle''"
proof -
  let ?a = "example_args ''model.bam'' Separate"
  let ?M = "main (posix_env ''/work'') ?a example_conv (example_world ''a.png'' [])"
  have sep: "arg_animations ?a = Separate"
    by (simp add: example_defs)
  have "fst ?M = None"
    by (simp add: run_defs example_defs path_defs rel_defs)
  then have ok: "?M = (None, snd ?M)"
    by (metis prod.collapse)
  have j: "job_dst (resolve_paths (posix_env ''/work'') ?a) = ''/work/model.bam''"
    by (simp add: run_defs example_defs path_defs)
  from animation_artifacts_in_scene_order [OF sep ok] show ?thesis
    unfolding j
    by (simp add: example_defs path_defs find_anim_bundles_def List.map_filter_def)
qed

text \<open>
  C5 as stated fails: the scene yields the bundles \<^verbatim>\<open>walk\<close> and \<^verbatim>\<open>idle\<close> in this order, sorted by
  name they are \<^verbatim>\<open>idle\<close>, \<^verbatim>\<open>walk\<close>, and the run writes the artifacts in the order of the scene, not
  in the sorted order.
\<close>

theorem animation_order_counterexample:
  "find_anim_bundles (active_scene example_conv) = [''walk'', ''idle'']
   \<and> sort (find_anim_bundles (active_scene example_conv)) = [''idle'', ''walk'']
   \<and> fst (main (posix_env ''/work'') (example_args ''model.bam'' Separate)
        example_conv (example_world ''a.png'' [])) = None
   \<and> bam_writes (trace (snd (main (posix_env ''/work'') (example_args ''model.bam'' Separate)
        example_conv (example_world ''a.png'' []))))
     \<noteq> map (anim_dst ''/work/model.bam'') (sort (find_anim_bundles (active_scene example_conv)))
         @ [''/work/model.bam'']"
  by (simp add: run_defs example_defs path_defs rel_defs)

subsection \<open>Failures\<close>

text \<open>A failure of the body for one texture, after the textures before it, ends the run.\<close>

lemma main_aborts_at:
  assumes ts: "textures_of conv w = pre @ t # post"
    and pre: "relocate_all E (arg_textures a) (assets_dir (resolve_paths E a))
        (outdir (resolve_paths E a)) pre (os_makedirs (outdir (resolve_paths E a)) w) = (None, w2)"
    and step: "relocate_texture E (arg_textures a) (assets_dir (resolve_paths E a))
        (outdir (resolve_paths E a)) t w2 = (Some e, w')"
  shows "main E a conv w = (Some e, w') \<and> bam_writes (trace w') = bam_writes (trace w)"
proof -
  let ?j = "resolve_paths E a"
  let ?w1 = "os_makedirs (outdir ?j) w"
  have run: "relocate_all E (arg_textures a) (assets_dir ?j) (outdir ?j) (textures_of conv w) ?w1
      = (Some e, w')"
    unfolding ts by (simp add: relocate_all_append pre step)
  from main_cases [OF refl refl run] have m: "main E a conv w = (Some e, w')"
    by simp
  from relocate_all_bam [OF run] have "bam_writes (trace w') = bam_writes (trace w)"
    by (simp add: os_makedirs_simps)
  with m show ?thesis by simp
qed




text \<open>
  C8: with the \<open>relativeTo\<close> of the specification as \<^verbatim>\<open>makeRelativeTo\<close>, a filename that has no
  common root with the assets directory makes \<open>relativeTo\<close> fail with \<open>CrossVolumeError\<close>; when
  the loop reaches a texture with such a filename the run ends with this error, in the state
  it had reached: the texture is not rewritten, nothing is copied for it, and neither the
  main artifact nor an animation artifact is written.
\<close>

theorem cross_volume_aborts:
  assumes "make_relative_to E = relativeTo"
    and "textures_of conv w = pre @ t # post"
    and "relocate_all E (arg_textures a) (assets_dir (resolve_paths E a))
        (outdir (resolve_paths E a)) pre (os_makedirs (outdir (resolve_paths E a)) w) = (None, w2)"
    and "f = filename (texs w2 t)"
    and "no_common_root f (assets_dir (resolve_paths E a))"
  shows "relativeTo f (assets_dir (resolve_paths E a))
           = Inl (CrossVolumeError f (assets_dir (resolve_paths E a)))
    \<and> main E a conv w = (Some (CrossVolumeError f (assets_dir (resolve_paths E a))), w2)
    \<and> bam_writes (trace w2) = bam_writes (trace w)"
proof -
  let ?j = "resolve_paths E a"
  from assms(5) have rel: "relativeTo f (assets_dir ?j) = Inl (CrossVolumeError f (assets_dir ?j))"
    by (simp add: relativeTo_def no_common_root_def)
  obtain res w' where step: "relocate_texture E (arg_textures a) (assets_dir ?j) (outdir ?j) t w2
      = (res, w')"
    by (cases "relocate_texture E (arg_textures a) (assets_dir ?j) (outdir ?j) t w2")
  from relocate_texture_cases [OF step assms(4)] rel assms(1)
  have "res = Some (CrossVolumeError f (assets_dir ?j))" and "w' = w2"
    by auto
  with main_aborts_at [OF assms(2,3) step [unfolded this]] rel show ?thesis
    by simp
qed

theorem cross_volume_aborts_witness:
  "relativeTo ''D:/a.png'' ''/work'' = Inl (CrossVolumeError ''D:/a.png'' ''/work'')
   \<and> main (posix_env ''/work'') (example_args ''out/model.bam'' Separate) example_conv
        (example_world ''D:/a.png'' ''b.png'')
      = (Some (CrossVolumeError ''D:/a.png'' ''/work''),
         os_makedirs ''/work/out'' (example_world ''D:/a.png'' ''b.png''))
   \<and> bam_writes (trace (os_makedirs ''/work/out'' (example_world ''D:/a.png'' ''b.png''))) = []"
proof -
  let ?E = "posix_env ''/work''"
  let ?a = "example_args ''out/model.bam'' Separate"
  let ?w = "example_world ''D:/a.png'' ''b.png''"
  have j: "assets_dir (resolve_paths ?E ?a) = ''/work''" "outdir (resolve_paths ?E ?a) = ''/work/out''"
    by (simp_all add: run_defs example_defs path_defs)
  have E: "make_relative_to ?E = relativeTo"
    by (simp add: example_defs)
  have ts: "textures_of example_conv ?w = [] @ 0 # [1]"
    by (simp add: run_defs example_defs)
  have pre: "relocate_all ?E (arg_textures ?a) (assets_dir (resolve_paths ?E ?a))
      (outdir (resolve_paths ?E ?a)) [] (os_makedirs (outdir (resolve_paths ?E ?a)) ?w)
      = (None, os_makedirs ''/work/out'' ?w)"
    unfolding j by simp
  have f: "''D:/a.png'' = filename (texs (os_makedirs ''/work/out'' ?w) 0)"
    by (simp add: os_makedirs_simps example_defs)
  have ncr: "no_common_root ''D:/a.png'' (assets_dir (resolve_paths ?E ?a))"
    unfolding j by (simp add: rel_defs)
  from cross_volume_aborts [OF E ts pre f ncr] show ?thesis
    unfolding j by (simp add: os_makedirs_simps example_defs)
qed

end
